theory Spec2Isabelle
  imports Complex_Main
begin

section \<open>Values of the program\<close>

text \<open>
  The class \<^verbatim>\<open>ArchaeologicalMapper\<close> of \<^verbatim>\<open>src/js/app.js\<close> keeps server responses and
  locally fabricated results as plain JavaScript objects. They are modelled as JSON
  values; an object is the list of its properties in insertion order. Numbers are
  rationals: IEEE rounding of the doubles is not modelled.
\<close>

datatype jsval =
    Undefined
  | Null
  | Bool bool
  | Num rat
  | Str string
  | Arr "jsval list"
  | Obj "(string \<times> jsval) list"

text \<open>JavaScript's ToBoolean, which decides every \<^verbatim>\<open>if (x)\<close>, \<^verbatim>\<open>x || y\<close> and \<^verbatim>\<open>x ? a : b\<close>.\<close>

fun truthy :: "jsval \<Rightarrow> bool" where
  "truthy Undefined = False"
| "truthy Null = False"
| "truthy (Bool b) = b"
| "truthy (Num n) = (n \<noteq> 0)"
| "truthy (Str s) = (s \<noteq> [])"
| "truthy (Arr xs) = True"
| "truthy (Obj kvs) = True"

text \<open>\<^verbatim>\<open>a || b\<close>\<close>

definition js_or :: "jsval \<Rightarrow> jsval \<Rightarrow> jsval" where
  "js_or a b = (if truthy a then a else b)"

text \<open>
  \<^verbatim>\<open>o.k\<close> for an \<^verbatim>\<open>o\<close> that is neither null nor undefined: the property when
  \<^verbatim>\<open>o\<close> is an object that has it, undefined otherwise.
\<close>

fun get :: "jsval \<Rightarrow> string \<Rightarrow> jsval" where
  "get (Obj kvs) k = (case map_of kvs k of Some v \<Rightarrow> v | None \<Rightarrow> Undefined)"
| "get v k = Undefined"

text \<open>\<^verbatim>\<open>o?.k\<close>\<close>

fun opt_get :: "jsval \<Rightarrow> string \<Rightarrow> jsval" where
  "opt_get Null k = Undefined"
| "opt_get Undefined k = Undefined"
| "opt_get v k = get v k"

text \<open>
  \<^verbatim>\<open>parseFloat(x.toFixed(d))\<close>: the decimal with \<open>d\<close> digits nearest to \<open>x\<close>, the
  larger one in a tie; a negative \<open>x\<close> is rounded as its absolute value.
\<close>

definition toFixed :: "nat \<Rightarrow> rat \<Rightarrow> rat" where
  "toFixed d x =
     (if x < 0 then - (of_int \<lfloor>- x * 10 ^ d + 1 / 2\<rfloor> / 10 ^ d)
      else of_int \<lfloor>x * 10 ^ d + 1 / 2\<rfloor> / 10 ^ d)"

text \<open>\<^verbatim>\<open>Math.floor\<close> and \<^verbatim>\<open>Math.round\<close>; the result is an integer.\<close>

definition math_floor :: "rat \<Rightarrow> int" where
  "math_floor x = \<lfloor>x\<rfloor>"

definition math_round :: "rat \<Rightarrow> int" where
  "math_round x = \<lfloor>x + 1 / 2\<rfloor>"

text \<open>The \<^verbatim>\<open>File\<close> chosen in the file input: its name and its size in bytes.\<close>

record jsfile =
  file_name :: string
  file_size :: nat

text \<open>
  A template literal or a string concatenation is kept as the list of its parts, so
  that no number has to be printed: a literal piece, an interpolated value, a
  \<^verbatim>\<open>toFixed\<close> string, the ISO string of a clock reading (milliseconds), the address
  of the server, and the two browser-made URLs of a local file.
\<close>

datatype part =
    Lit string
  | Val jsval
  | Fixed nat rat
  | Iso nat
  | BaseUrl
  | ObjectUrl jsfile
  | DataUrl jsfile

type_synonym tmpl = "part list"

text \<open>\<^verbatim>\<open>this.currentImage\<close>, built by \<^verbatim>\<open>uploadToBackend\<close> or \<^verbatim>\<open>uploadOffline\<close>.\<close>

record image =
  filename :: jsval
  original_name :: jsval
  image_size :: tmpl
  preview_url :: tmpl
  upload_timestamp :: part
  server_data :: jsval

text \<open>\<^verbatim>\<open>this.processingResults.statistics\<close>, built by \<^verbatim>\<open>generateCombinedStatistics\<close>.\<close>

record stats =
  timestamp :: part
  image_name :: jsval
  ruins_coverage :: jsval
  vegetation_coverage :: jsval
  water_coverage :: jsval
  artifact_count :: jsval
  processing_mode :: jsval
  summary :: tmpl

text \<open>The \<^verbatim>\<open>type\<close> argument of \<^verbatim>\<open>showNotification\<close>.\<close>

datatype level = Success | Error_level | Warning | Info

text \<open>The four endpoints of \<^verbatim>\<open>this.endpoints\<close>; every \<^verbatim>\<open>fetch\<close> goes to one of them.\<close>

datatype endpoint = Status | Upload | Segment | Detect

text \<open>
  The state of the application object. The three slots of
  \<^verbatim>\<open>this.processingResults\<close> are fields of their own; \<^verbatim>\<open>segmentation\<close> and
  \<^verbatim>\<open>detection\<close> hold \<^verbatim>\<open>null\<close> or a result object. A Leaflet layer is modelled by
  what it shows. \<open>requests\<close> and \<open>notifications\<close> record, in order, the calls of
  \<^verbatim>\<open>fetch\<close> and of \<^verbatim>\<open>showNotification\<close>. The DOM (progress bars, legend,
  results panel, loading overlay) is not part of the state.
\<close>

record mapper =
  currentImage :: "image option"
  selectedFile :: "jsfile option"
  segmentation :: jsval
  detection :: jsval
  statistics :: "stats option"
  imageOverlay :: "tmpl option"
  artifactsLayer :: "jsval list option"
  segmentationLayer :: "unit option"
  imageBounds :: "((rat \<times> rat) \<times> (rat \<times> rat)) option"
  isOnline :: bool
  isProcessing :: bool
  isUploading :: bool
  runningAllProcess :: bool
  requests :: "endpoint list"
  notifications :: "(tmpl \<times> level) list"

text \<open>The constructor, before \<^verbatim>\<open>initApp\<close> runs.\<close>

definition constructor :: mapper where
  "constructor =
     \<lparr> currentImage = None, selectedFile = None,
       segmentation = Null, detection = Null, statistics = None,
       imageOverlay = None, artifactsLayer = None, segmentationLayer = None,
       imageBounds = None,
       isOnline = False, isProcessing = False, isUploading = False,
       runningAllProcess = False,
       requests = [], notifications = [] \<rparr>"

section \<open>Exceptions and the network\<close>

text \<open>
  An \<^verbatim>\<open>async\<close> method runs from its call to the settlement of its promise and is
  modelled as one function from the state at the call to the way the promise settles
  and the state then. What a \<^verbatim>\<open>setTimeout\<close> of a \<^verbatim>\<open>finally\<close> block does later is
  a transition of its own. A thrown exception keeps the assignments made before it.
\<close>

datatype error = Error tmpl

fun message :: "error \<Rightarrow> tmpl" where
  "message (Error m) = m"

datatype completion = Normal | Throw error

text \<open>
  What one \<^verbatim>\<open>fetch\<close> and the following \<^verbatim>\<open>response.json()\<close> deliver: the request
  is rejected (network error, timeout) with a message, or a response arrives with its
  HTTP status and a body that \<^verbatim>\<open>json()\<close> fails to parse (with a message) or parses.
\<close>

datatype fetched =
    Rejects string
  | Responds nat "string + jsval"

text \<open>\<^verbatim>\<open>response.ok\<close>\<close>

definition ok :: "nat \<Rightarrow> bool" where
  "ok st = (200 \<le> st \<and> st \<le> 299)"

definition showNotification :: "tmpl \<Rightarrow> level \<Rightarrow> mapper \<Rightarrow> mapper" where
  "showNotification msg lv s = s\<lparr>notifications := notifications s @ [(msg, lv)]\<rparr>"

definition fetch :: "endpoint \<Rightarrow> mapper \<Rightarrow> mapper" where
  "fetch ep s = s\<lparr>requests := requests s @ [ep]\<rparr>"

text \<open>
  The exception of reading a property of \<^verbatim>\<open>null\<close>; the wording of its message is
  the browser's.
\<close>

definition null_read :: error where
  "null_read = Error [Lit ''Cannot read properties of null'']"

section \<open>The connectivity probe\<close>

text \<open>
  The \<^verbatim>\<open>try\<close> block of \<^verbatim>\<open>checkBackendStatus\<close>. \<^verbatim>\<open>updateBackendStatusUI\<close> writes
  to the DOM only.
\<close>

definition checkBackendStatus_try :: "fetched \<Rightarrow> mapper \<Rightarrow> completion \<times> mapper" where
  "checkBackendStatus_try r s =
     (let s1 = fetch Status s in
      case r of
        Rejects m \<Rightarrow> (Throw (Error [Lit m]), s1)
      | Responds st body \<Rightarrow>
          if ok st then
            (case body of
               Inl m \<Rightarrow> (Throw (Error [Lit m]), s1)
             | Inr data \<Rightarrow>
                 (Normal,
                  showNotification [Lit ''Backend server connected successfully''] Success
                    (s1\<lparr>isOnline := True\<rparr>)))
          else (Throw (Error [Lit ''HTTP '', Val (Num (of_nat st))]), s1))"

definition checkBackendStatus :: "fetched \<Rightarrow> mapper \<Rightarrow> completion \<times> mapper" where
  "checkBackendStatus r s =
     (case checkBackendStatus_try r s of
        (Normal, s1) \<Rightarrow> (Normal, s1)
      | (Throw e, s1) \<Rightarrow>
          (Normal,
           showNotification [Lit ''Running in offline mode. Basic features available.''] Warning
             (s1\<lparr>isOnline := False\<rparr>)))"

section \<open>Upload\<close>

text \<open>The \<^verbatim>\<open>change\<close> listener of the file input.\<close>

definition selectFile :: "jsfile \<Rightarrow> mapper \<Rightarrow> mapper" where
  "selectFile f s =
     showNotification [Lit ''File selected: '', Lit (file_name f)] Success
       (s\<lparr>selectedFile := Some f\<rparr>)"

definition displayImage :: "tmpl \<Rightarrow> mapper \<Rightarrow> mapper" where
  "displayImage imgUrl s =
     s\<lparr>artifactsLayer := None, segmentationLayer := None,
       imageOverlay := Some imgUrl,
       imageBounds := Some ((29971 / 1000, 31127 / 1000), (29982 / 1000, 31138 / 1000))\<rparr>"

text \<open>
  The object literal assigned to \<^verbatim>\<open>this.currentImage\<close> in \<^verbatim>\<open>uploadToBackend\<close>;
  the size of the selected file is read only when the server sent no
  \<^verbatim>\<open>file_size_mb\<close>.
\<close>

definition server_image :: "jsval \<Rightarrow> tmpl \<Rightarrow> image" where
  "server_image result sz =
     \<lparr> filename = get result ''filename'',
       original_name = get result ''original_name'',
       image_size = sz,
       preview_url = [BaseUrl, Val (get result ''preview_url'')],
       upload_timestamp = Val (get result ''upload_timestamp''),
       server_data = result \<rparr>"

definition upload_stored :: "image \<Rightarrow> mapper \<Rightarrow> mapper" where
  "upload_stored img s =
     displayImage (preview_url img)
       (showNotification [Lit ''Image uploaded successfully to server''] Success
          (s\<lparr>currentImage := Some img\<rparr>))"

definition uploadToBackend :: "fetched \<Rightarrow> mapper \<Rightarrow> completion \<times> mapper" where
  "uploadToBackend r s =
     (let s1 = fetch Upload s in
      case r of
        Rejects m \<Rightarrow> (Throw (Error [Lit m]), s1)
      | Responds st body \<Rightarrow>
          if ok st then
            (case body of
               Inl m \<Rightarrow> (Throw (Error [Lit m]), s1)
             | Inr result \<Rightarrow>
                 if result = Null \<or> result = Undefined then (Throw null_read, s1)
                 else if truthy (get result ''success'') then
                   (if truthy (get result ''file_size_mb'') then
                      (Normal,
                       upload_stored
                         (server_image result [Val (get result ''file_size_mb''), Lit '' MB'']) s1)
                    else
                      (case selectedFile s1 of
                         None \<Rightarrow> (Throw null_read, s1)
                       | Some f \<Rightarrow>
                           (Normal,
                            upload_stored
                              (server_image result
                                 [Val (Num (of_int (math_round
                                    (of_nat (file_size f) / (1024 * 1024))))), Lit '' MB''])
                              s1)))
                 else (Throw (Error [Val (js_or (get result ''error'') (Str ''Upload failed''))]), s1))
          else (Throw (Error [Lit ''Upload failed: '', Val (Num (of_nat st))]), s1))"

text \<open>
  The object literal assigned to \<^verbatim>\<open>this.currentImage\<close> in \<^verbatim>\<open>uploadOffline\<close>;
  \<open>now\<close> is the clock reading of \<^verbatim>\<open>new Date()\<close>.
\<close>

definition local_image :: "jsfile \<Rightarrow> nat \<Rightarrow> image" where
  "local_image f now =
     \<lparr> filename = Str (file_name f),
       original_name = Str (file_name f),
       image_size = [Fixed 2 (of_nat (file_size f) / (1024 * 1024)), Lit '' MB''],
       preview_url = [ObjectUrl f],
       upload_timestamp = Iso now,
       server_data = Null \<rparr>"

definition uploadOffline :: "nat \<Rightarrow> mapper \<Rightarrow> completion \<times> mapper" where
  "uploadOffline now s =
     (case selectedFile s of
        None \<Rightarrow> (Throw null_read, s)
      | Some f \<Rightarrow>
          (Normal,
           displayImage [DataUrl f]
             (showNotification [Lit ''Image loaded for offline processing''] Success
                (s\<lparr>currentImage := Some (local_image f now)\<rparr>))))"

definition uploadImage :: "fetched \<Rightarrow> nat \<Rightarrow> mapper \<Rightarrow> completion \<times> mapper" where
  "uploadImage r now s =
     (case selectedFile s of
        None \<Rightarrow> (Normal, showNotification [Lit ''Please select an image file first''] Warning s)
      | Some f \<Rightarrow>
          if isUploading s then
            (Normal, showNotification [Lit ''Upload already in progress''] Warning s)
          else
            (let s1 = s\<lparr>isUploading := True, isProcessing := True\<rparr> in
             case (if isOnline s1 then uploadToBackend r s1 else uploadOffline now s1) of
               (Normal, s2) \<Rightarrow> (Normal, s2)
             | (Throw e, s2) \<Rightarrow>
                 uploadOffline now
                   ((showNotification [Lit ''Upload failed, using offline mode''] Warning s2)
                      \<lparr>isOnline := False\<rparr>)))"

text \<open>The timer that the \<^verbatim>\<open>finally\<close> block of \<^verbatim>\<open>uploadImage\<close> sets.\<close>

definition uploadImage_timeout :: "mapper \<Rightarrow> mapper" where
  "uploadImage_timeout s = s\<lparr>isProcessing := False, isUploading := False\<rparr>"

section \<open>Segmentation\<close>

text \<open>
  \<^verbatim>\<open>displaySegmentationResult\<close>, \<^verbatim>\<open>updateResultsPanel\<close> and
  \<^verbatim>\<open>updateLegendValues\<close> open a popup and write to the DOM; they are taken not to
  throw.
\<close>

definition runBackendSegmentation :: "fetched \<Rightarrow> mapper \<Rightarrow> completion \<times> mapper" where
  "runBackendSegmentation r s =
     (case currentImage s of
        None \<Rightarrow> (Throw null_read, s)
      | Some img \<Rightarrow>
          (let s1 = fetch Segment s in
           case r of
             Rejects m \<Rightarrow> (Throw (Error [Lit m]), s1)
           | Responds st body \<Rightarrow>
               if ok st then
                 (case body of
                    Inl m \<Rightarrow> (Throw (Error [Lit m]), s1)
                  | Inr result \<Rightarrow>
                      if result = Null \<or> result = Undefined then (Throw null_read, s1)
                      else if truthy (get result ''success'') then
                        (Normal,
                         showNotification
                           [Lit ''Segmentation complete: '',
                            Val (js_or (get result ''ruins_percentage'') (Num 0)),
                            Lit ''% ruins detected''] Success
                           (s1\<lparr>segmentation := result\<rparr>))
                      else
                        (Throw (Error [Val (js_or (get result ''error'')
                                               (Str ''Segmentation failed''))]), s1))
               else (Throw (Error [Lit ''Segmentation failed: '', Val (Num (of_nat st))]), s1)))"

text \<open>
  \<open>rnd i\<close> is what the \<open>i\<close>-th call of \<^verbatim>\<open>Math.random()\<close> returns, counted from
  the first call of the method.
\<close>

definition offline_segmentation :: "(nat \<Rightarrow> rat) \<Rightarrow> jsval" where
  "offline_segmentation rnd =
     Obj [(''ruins_percentage'', Num (toFixed 2 (rnd 0 * 40 + 20))),
          (''vegetation_percentage'', Num (toFixed 2 (rnd 1 * 30 + 10))),
          (''water_percentage'', Num (toFixed 2 (rnd 2 * 5 + 1))),
          (''pixels_analyzed'', Num (1000000 + of_int (math_floor (rnd 3 * 500000)))),
          (''image_size'', Str ''1920x1080''),
          (''success'', Bool True),
          (''segmentation_url'', Null)]"

definition runOfflineSegmentation :: "(nat \<Rightarrow> rat) \<Rightarrow> mapper \<Rightarrow> mapper" where
  "runOfflineSegmentation rnd s =
     (let s1 = s\<lparr>segmentation := offline_segmentation rnd\<rparr> in
      if \<not> runningAllProcess s1 then
        showNotification [Lit ''Site features segmented (offline mode)''] Success s1
      else s1)"

text \<open>The choice between the two implementations, as written out in three places.\<close>

definition segmentation_stage ::
  "fetched \<Rightarrow> (nat \<Rightarrow> rat) \<Rightarrow> mapper \<Rightarrow> completion \<times> mapper" where
  "segmentation_stage r rnd s =
     (case currentImage s of
        None \<Rightarrow> (Throw null_read, s)
      | Some img \<Rightarrow>
          if isOnline s \<and> truthy (filename img) then runBackendSegmentation r s
          else (Normal, runOfflineSegmentation rnd s))"

definition runSegmentation ::
  "fetched \<Rightarrow> (nat \<Rightarrow> rat) \<Rightarrow> mapper \<Rightarrow> completion \<times> mapper" where
  "runSegmentation r rnd s =
     (if currentImage s = None then
        (Normal, showNotification [Lit ''Please upload an image first''] Warning s)
      else if isProcessing s \<and> \<not> runningAllProcess s then
        (Normal, showNotification [Lit ''Another process is currently running''] Warning s)
      else
        (let s1 = (if \<not> runningAllProcess s then s\<lparr>isProcessing := True\<rparr> else s) in
         case segmentation_stage r rnd s1 of
           (Normal, s2) \<Rightarrow> (Normal, s2)
         | (Throw e, s2) \<Rightarrow>
             (let s3 = showNotification [Lit ''Segmentation failed, trying offline mode'']
                         Warning s2 in
              if isOnline s3 then (Normal, runOfflineSegmentation rnd (s3\<lparr>isOnline := False\<rparr>))
              else (Normal, s3))))"

text \<open>
  The timer that the \<^verbatim>\<open>finally\<close> block of \<^verbatim>\<open>runSegmentation\<close> and of
  \<^verbatim>\<open>detectArtifacts\<close> sets.
\<close>

definition stage_timeout :: "mapper \<Rightarrow> mapper" where
  "stage_timeout s = (if \<not> runningAllProcess s then s\<lparr>isProcessing := False\<rparr> else s)"

section \<open>Detection\<close>

text \<open>
  \<^verbatim>\<open>displayDetectionResult\<close> replaces the artifacts layer by one marker for each
  element of \<^verbatim>\<open>results.artifacts\<close>; where on the map a marker is put is not
  modelled, and drawing is taken not to throw.
\<close>

definition displayDetectionResult :: "jsval \<Rightarrow> mapper \<Rightarrow> mapper" where
  "displayDetectionResult results s =
     s\<lparr>artifactsLayer := Some (case get results ''artifacts'' of Arr as \<Rightarrow> as | _ \<Rightarrow> [])\<rparr>"

definition runBackendDetection :: "fetched \<Rightarrow> mapper \<Rightarrow> completion \<times> mapper" where
  "runBackendDetection r s =
     (case currentImage s of
        None \<Rightarrow> (Throw null_read, s)
      | Some img \<Rightarrow>
          (let s1 = fetch Detect s in
           case r of
             Rejects m \<Rightarrow> (Throw (Error [Lit m]), s1)
           | Responds st body \<Rightarrow>
               if ok st then
                 (case body of
                    Inl m \<Rightarrow> (Throw (Error [Lit m]), s1)
                  | Inr result \<Rightarrow>
                      if result = Null \<or> result = Undefined then (Throw null_read, s1)
                      else if truthy (get result ''success'') then
                        (let s2 = s1\<lparr>detection := result\<rparr>;
                             s3 = (if \<not> runningAllProcess s2 then
                                     showNotification
                                       [Lit ''Found '',
                                        Val (js_or (get result ''total_detected'') (Num 0)),
                                        Lit '' artifacts''] Success s2
                                   else s2)
                         in (Normal, displayDetectionResult result s3))
                      else
                        (Throw (Error [Val (js_or (get result ''error'')
                                               (Str ''Detection failed''))]), s1))
               else (Throw (Error [Lit ''Detection failed: '', Val (Num (of_nat st))]), s1)))"

definition artifactTypes :: "string list" where
  "artifactTypes =
     [''Pottery'', ''Tool'', ''Structure'', ''Ceramic'', ''Bone'', ''Stone Tool'', ''Vessel'',
      ''Ornament'']"

text \<open>\<^verbatim>\<open>xs[i]\<close> on an array of strings: undefined outside the array.\<close>

definition js_index :: "string list \<Rightarrow> int \<Rightarrow> jsval" where
  "js_index xs i = (if 0 \<le> i \<and> nat i < length xs then Str (xs ! nat i) else Undefined)"

text \<open>
  The object pushed in iteration \<open>i\<close> of the loop of \<^verbatim>\<open>runOfflineDetection\<close>. The
  loop calls \<^verbatim>\<open>Math.random()\<close> nine times in each iteration, after the one call
  that fixed the number of artifacts.
\<close>

definition artifact :: "(nat \<Rightarrow> rat) \<Rightarrow> nat \<Rightarrow> jsval" where
  "artifact rnd i =
     Obj [(''id'', Num (of_nat i + 1)),
          (''type'',
             js_index artifactTypes
               (math_floor (rnd (9 * i + 1) * of_nat (length artifactTypes)))),
          (''confidence'', Num (toFixed 3 (rnd (9 * i + 2) * (3 / 10) + 7 / 10))),
          (''area'', Num (of_int (math_floor (rnd (9 * i + 3) * 2000 + 500)))),
          (''center'',
             Arr [Num (of_int (math_floor (rnd (9 * i + 4) * 1000))),
                  Num (of_int (math_floor (rnd (9 * i + 5) * 1000)))]),
          (''bbox'',
             Arr [Num (of_int (math_floor (rnd (9 * i + 6) * 800))),
                  Num (of_int (math_floor (rnd (9 * i + 7) * 800))),
                  Num (of_int (math_floor (rnd (9 * i + 8) * 200 + 50))),
                  Num (of_int (math_floor (rnd (9 * i + 9) * 200 + 50)))])]"

text \<open>The array \<^verbatim>\<open>artifacts\<close> after the first \<open>n\<close> iterations of the loop.\<close>

primrec artifacts_loop :: "(nat \<Rightarrow> rat) \<Rightarrow> nat \<Rightarrow> jsval list" where
  "artifacts_loop rnd 0 = []"
| "artifacts_loop rnd (Suc i) = artifacts_loop rnd i @ [artifact rnd i]"

definition numArtifacts :: "(nat \<Rightarrow> rat) \<Rightarrow> int" where
  "numArtifacts rnd = math_floor (rnd 0 * 12) + 3"

text \<open>The loop runs while \<^verbatim>\<open>i < numArtifacts\<close>: not at all for a negative bound.\<close>

definition offline_artifacts :: "(nat \<Rightarrow> rat) \<Rightarrow> jsval list" where
  "offline_artifacts rnd = artifacts_loop rnd (nat (numArtifacts rnd))"

definition offline_detection :: "(nat \<Rightarrow> rat) \<Rightarrow> jsval" where
  "offline_detection rnd =
     (let artifacts = offline_artifacts rnd in
      Obj [(''artifacts'', Arr artifacts),
           (''total_detected'', Num (of_nat (length artifacts))),
           (''success'', Bool True),
           (''detection_map'', Null)])"

definition runOfflineDetection :: "(nat \<Rightarrow> rat) \<Rightarrow> mapper \<Rightarrow> mapper" where
  "runOfflineDetection rnd s =
     (let artifacts = offline_artifacts rnd;
          results = offline_detection rnd;
          s1 = s\<lparr>detection := results\<rparr>;
          s2 = (if \<not> runningAllProcess s1 then
                  showNotification
                    [Lit ''Found '', Val (Num (of_nat (length artifacts))),
                     Lit '' artifacts (offline mode)''] Success s1
                else s1)
      in displayDetectionResult results s2)"

definition detection_stage ::
  "fetched \<Rightarrow> (nat \<Rightarrow> rat) \<Rightarrow> mapper \<Rightarrow> completion \<times> mapper" where
  "detection_stage r rnd s =
     (case currentImage s of
        None \<Rightarrow> (Throw null_read, s)
      | Some img \<Rightarrow>
          if isOnline s \<and> truthy (filename img) then runBackendDetection r s
          else (Normal, runOfflineDetection rnd s))"

definition detectArtifacts ::
  "fetched \<Rightarrow> (nat \<Rightarrow> rat) \<Rightarrow> mapper \<Rightarrow> completion \<times> mapper" where
  "detectArtifacts r rnd s =
     (if currentImage s = None then
        (Normal, showNotification [Lit ''Please upload an image first''] Warning s)
      else if isProcessing s \<and> \<not> runningAllProcess s then
        (Normal, showNotification [Lit ''Another process is currently running''] Warning s)
      else
        (let s1 = (if \<not> runningAllProcess s then s\<lparr>isProcessing := True\<rparr> else s) in
         case detection_stage r rnd s1 of
           (Normal, s2) \<Rightarrow> (Normal, s2)
         | (Throw e, s2) \<Rightarrow>
             (let s3 = showNotification [Lit ''Detection failed, trying offline mode'']
                         Warning s2 in
              if isOnline s3 then (Normal, runOfflineDetection rnd (s3\<lparr>isOnline := False\<rparr>))
              else (Normal, s3))))"

section \<open>The combined statistics and the complete run\<close>

definition generateCombinedStatistics :: "nat \<Rightarrow> mapper \<Rightarrow> mapper" where
  "generateCombinedStatistics now s =
     (let seg = segmentation s; det = detection s in
      s\<lparr>statistics := Some
          \<lparr> timestamp = Iso now,
            image_name =
              js_or (case currentImage s of None \<Rightarrow> Undefined | Some img \<Rightarrow> original_name img)
                    (Str ''Unknown''),
            ruins_coverage = js_or (opt_get seg ''ruins_percentage'') (Num 0),
            vegetation_coverage = js_or (opt_get seg ''vegetation_percentage'') (Num 0),
            water_coverage = js_or (opt_get seg ''water_percentage'') (Num 0),
            artifact_count = js_or (opt_get det ''total_detected'') (Num 0),
            processing_mode = Str (if isOnline s then ''Online'' else ''Offline''),
            summary =
              [Lit ''Analysis complete: '',
               Val (js_or (opt_get seg ''ruins_percentage'') (Num 0)),
               Lit ''% ruins, '',
               Val (js_or (opt_get det ''total_detected'') (Num 0)),
               Lit '' artifacts''] \<rparr>\<rparr>)"

text \<open>
  \<^verbatim>\<open>runAllProcessing\<close>: the two checks, then the two flags, then the \<^verbatim>\<open>try\<close>
  block, whose three steps stop at the first exception, and the \<^verbatim>\<open>catch\<close> block.
\<close>

definition runAll_lock :: "mapper \<Rightarrow> mapper" where
  "runAll_lock s = s\<lparr>isProcessing := True, runningAllProcess := True\<rparr>"

definition runAll_try ::
  "fetched \<Rightarrow> fetched \<Rightarrow> (nat \<Rightarrow> rat) \<Rightarrow> (nat \<Rightarrow> rat) \<Rightarrow> nat \<Rightarrow> mapper
     \<Rightarrow> completion \<times> mapper" where
  "runAll_try r_seg r_det rnd_seg rnd_det now s =
     (case segmentation_stage r_seg rnd_seg s of
        (Throw e, s1) \<Rightarrow> (Throw e, s1)
      | (Normal, s1) \<Rightarrow>
          (case detection_stage r_det rnd_det s1 of
             (Throw e, s2) \<Rightarrow> (Throw e, s2)
           | (Normal, s2) \<Rightarrow>
               (Normal,
                showNotification [Lit ''All processing completed successfully!''] Success
                  (generateCombinedStatistics now s2))))"

definition runAll_body ::
  "fetched \<Rightarrow> fetched \<Rightarrow> (nat \<Rightarrow> rat) \<Rightarrow> (nat \<Rightarrow> rat) \<Rightarrow> nat \<Rightarrow> mapper
     \<Rightarrow> completion \<times> mapper" where
  "runAll_body r_seg r_det rnd_seg rnd_det now s =
     (case runAll_try r_seg r_det rnd_seg rnd_det now s of
        (Normal, s1) \<Rightarrow> (Normal, s1)
      | (Throw e, s1) \<Rightarrow>
          (Normal, showNotification (Lit ''Processing failed: '' # message e) Error_level s1))"

definition runAllProcessing ::
  "fetched \<Rightarrow> fetched \<Rightarrow> (nat \<Rightarrow> rat) \<Rightarrow> (nat \<Rightarrow> rat) \<Rightarrow> nat \<Rightarrow> mapper
     \<Rightarrow> completion \<times> mapper" where
  "runAllProcessing r_seg r_det rnd_seg rnd_det now s =
     (if currentImage s = None then
        (Normal, showNotification [Lit ''Please upload an image first''] Warning s)
      else if isProcessing s then
        (Normal, showNotification [Lit ''Another process is currently running''] Warning s)
      else runAll_body r_seg r_det rnd_seg rnd_det now (runAll_lock s))"

text \<open>The timer that the \<^verbatim>\<open>finally\<close> block of \<^verbatim>\<open>runAllProcessing\<close> sets.\<close>

definition runAll_timeout :: "mapper \<Rightarrow> mapper" where
  "runAll_timeout s = s\<lparr>isProcessing := False, runningAllProcess := False\<rparr>"

section \<open>Clearing the results\<close>

definition clearResults :: "mapper \<Rightarrow> mapper" where
  "clearResults s =
     showNotification [Lit ''All results cleared''] Info
       (s\<lparr>artifactsLayer := None,
          segmentation := Null, detection := Null, statistics := None\<rparr>)"

section \<open>Executions\<close>

text \<open>
  What can happen to the application: the probe that \<^verbatim>\<open>initApp\<close> starts, the
  listeners that \<^verbatim>\<open>initEventListeners\<close> installs, the combination step, and the
  timers. Each event carries what the outside world contributes to it: the answer of
  the server, the random numbers, the clock.
\<close>

datatype event =
    Probe fetched
  | SelectFile jsfile
  | UploadImage fetched nat
  | UploadTimeout
  | RunSegmentation fetched "nat \<Rightarrow> rat"
  | DetectArtifacts fetched "nat \<Rightarrow> rat"
  | StageTimeout
  | RunAll fetched fetched "nat \<Rightarrow> rat" "nat \<Rightarrow> rat" nat
  | RunAllTimeout
  | Combine nat
  | ClearResults

fun exec :: "event \<Rightarrow> mapper \<Rightarrow> mapper" where
  "exec (Probe r) s = snd (checkBackendStatus r s)"
| "exec (SelectFile f) s = selectFile f s"
| "exec (UploadImage r now) s = snd (uploadImage r now s)"
| "exec UploadTimeout s = uploadImage_timeout s"
| "exec (RunSegmentation r rnd) s = snd (runSegmentation r rnd s)"
| "exec (DetectArtifacts r rnd) s = snd (detectArtifacts r rnd s)"
| "exec StageTimeout s = stage_timeout s"
| "exec (RunAll r_seg r_det rnd_seg rnd_det now) s =
     snd (runAllProcessing r_seg r_det rnd_seg rnd_det now s)"
| "exec RunAllTimeout s = runAll_timeout s"
| "exec (Combine now) s = generateCombinedStatistics now s"
| "exec ClearResults s = clearResults s"

fun is_probe :: "event \<Rightarrow> bool" where
  "is_probe (Probe r) = True"
| "is_probe e = False"

fun run :: "event list \<Rightarrow> mapper \<Rightarrow> mapper" where
  "run [] s = s"
| "run (e # es) s = run es (exec e s)"

section \<open>What the specification asks of a synthetic result\<close>









text \<open>
  The three remote failures of the specification: the request fails, the status is not
  a success, or the body has no true \<^verbatim>\<open>success\<close>; a body that is not JSON or is
  \<^verbatim>\<open>null\<close> fails in the same way.
\<close>

definition remote_failure :: "fetched \<Rightarrow> bool" where
  "remote_failure r =
     (case r of
        Rejects m \<Rightarrow> True
      | Responds st body \<Rightarrow>
          \<not> ok st \<or> (case body of Inl m \<Rightarrow> True | Inr result \<Rightarrow> \<not> truthy (opt_get result ''success'')))"

section \<open>Example executions\<close>

text \<open>
  A session without a reachable server: a file is chosen and uploaded, then the
  complete analysis runs. Every random number is one half.
\<close>

definition site1 :: jsfile where
  "site1 = \<lparr>file_name = ''site1.jpg'', file_size = 2516582\<rparr>"

definition half :: "nat \<Rightarrow> rat" where
  "half i = 1 / 2"

definition unreachable :: fetched where
  "unreachable = Rejects ''Failed to fetch''"

definition uploaded_offline :: mapper where
  "uploaded_offline =
     run [SelectFile site1, UploadImage unreachable 1000, UploadTimeout] constructor"

definition analysed_offline :: mapper where
  "analysed_offline =
     run [RunAll unreachable unreachable half half 2000, RunAllTimeout] uploaded_offline"

text \<open>The answer to the probe arrives only after that analysis.\<close>

definition analysed_then_online :: mapper where
  "analysed_then_online =
     run [Probe (Responds 200 (Inr (Obj [(''status'', Str ''running'')])))] analysed_offline"

text \<open>A session with a server that answers the probe and accepts the upload.\<close>

definition upload_reply :: jsval where
  "upload_reply =
     Obj [(''success'', Bool True), (''filename'', Str ''u1_site1.jpg''),
          (''original_name'', Str ''site1.jpg''), (''file_size_mb'', Num (12 / 5)),
          (''preview_url'', Str ''/uploads/u1_site1.jpg''),
          (''upload_timestamp'', Str ''2024-01-01T00:00:00'')]"

definition uploaded_online :: mapper where
  "uploaded_online =
     run [Probe (Responds 200 (Inr (Obj [(''status'', Str ''running'')]))), SelectFile site1,
          UploadImage (Responds 200 (Inr upload_reply)) 1000, UploadTimeout] constructor"

section \<open>Properties\<close>

subsection \<open>Unfolding the model\<close>

lemmas stage_defs =
  showNotification_def fetch_def displayImage_def upload_stored_def
  displayDetectionResult_def runOfflineSegmentation_def runOfflineDetection_def

lemmas eval_defs =
  constructor_def showNotification_def fetch_def null_read_def ok_def js_or_def
  checkBackendStatus_try_def checkBackendStatus_def selectFile_def displayImage_def
  server_image_def upload_stored_def uploadToBackend_def local_image_def uploadOffline_def
  uploadImage_def
  uploadImage_timeout_def runBackendSegmentation_def runOfflineSegmentation_def
  segmentation_stage_def runSegmentation_def stage_timeout_def displayDetectionResult_def
  runBackendDetection_def runOfflineDetection_def detection_stage_def detectArtifacts_def
  generateCombinedStatistics_def runAll_lock_def runAll_try_def runAll_body_def
  runAllProcessing_def runAll_timeout_def clearResults_def Let_def

lemmas example_defs =
  site1_def unreachable_def uploaded_offline_def analysed_offline_def
  analysed_then_online_def upload_reply_def uploaded_online_def

subsection \<open>Upload\<close>








subsection \<open>The combined statistics\<close>

text \<open>
  C2, as the code has it. \<^verbatim>\<open>generateCombinedStatistics\<close> reads the clock. Called a
  second time on the store that the first call left, or on the same store at another
  time, it builds the summary of the first call with the new clock reading as
  \<^verbatim>\<open>timestamp\<close>: the two summaries agree in every other field, and in all fields
  when the clock reads the same.
\<close>

theorem generateCombinedStatistics_twice:
  "statistics (generateCombinedStatistics t2 (generateCombinedStatistics t1 s))
     = map_option (\<lambda>st. st\<lparr>timestamp := Iso t2\<rparr>)
         (statistics (generateCombinedStatistics t1 s)) \<and>
   statistics (generateCombinedStatistics t2 s)
     = map_option (\<lambda>st. st\<lparr>timestamp := Iso t2\<rparr>)
         (statistics (generateCombinedStatistics t1 s)) \<and>
   map_option timestamp (statistics (generateCombinedStatistics t1 s)) = Some (Iso t1)"
  by (simp add: generateCombinedStatistics_def Let_def)

text \<open>
  C2 as stated fails: two calls one millisecond apart, with nothing else happening in
  between, leave different summaries.
\<close>

theorem combine_twice_counterexample:
  "statistics (generateCombinedStatistics 2001 (generateCombinedStatistics 2000 uploaded_offline))
     \<noteq> statistics (generateCombinedStatistics 2000 uploaded_offline)"
  by (simp add: generateCombinedStatistics_def Let_def)

subsection \<open>Mutual exclusion\<close>

text \<open>
  While \<^verbatim>\<open>runningAllProcess\<close> is set, the busy check of the two stage methods
  lets every call pass: in offline mode the call writes its slot and shows nothing.
\<close>

lemma runSegmentation_during_runAll:
  "runningAllProcess s \<Longrightarrow> currentImage s \<noteq> None \<Longrightarrow> \<not> isOnline s \<Longrightarrow>
   segmentation (snd (runSegmentation r rnd s)) = offline_segmentation rnd \<and>
   notifications (snd (runSegmentation r rnd s)) = notifications s"
  by (auto simp add: runSegmentation_def segmentation_stage_def runOfflineSegmentation_def
        Let_def)

lemma detectArtifacts_during_runAll:
  "runningAllProcess s \<Longrightarrow> currentImage s \<noteq> None \<Longrightarrow> \<not> isOnline s \<Longrightarrow>
   detection (snd (detectArtifacts r rnd s)) = offline_detection rnd \<and>
   notifications (snd (detectArtifacts r rnd s)) = notifications s"
  by (auto simp add: detectArtifacts_def detection_stage_def runOfflineDetection_def
        displayDetectionResult_def Let_def)

text \<open>
  C3 fails on the code. \<^verbatim>\<open>runAll_lock uploaded_offline\<close> is the state in which
  \<^verbatim>\<open>runAllProcessing\<close> waits for its first step: both flags are set. A click on
  the segmentation or on the detection button then is not rejected: no warning is
  shown, the stage runs and writes its slot.
\<close>

theorem single_stage_during_runAll:
  "runningAllProcess (runAll_lock uploaded_offline) \<and>
   isProcessing (runAll_lock uploaded_offline) \<and>
   segmentation (runAll_lock uploaded_offline) = Null \<and>
   detection (runAll_lock uploaded_offline) = Null \<and>
   segmentation (snd (runSegmentation unreachable half (runAll_lock uploaded_offline)))
     = offline_segmentation half \<and>
   notifications (snd (runSegmentation unreachable half (runAll_lock uploaded_offline)))
     = notifications (runAll_lock uploaded_offline) \<and>
   detection (snd (detectArtifacts unreachable half (runAll_lock uploaded_offline)))
     = offline_detection half \<and>
   notifications (snd (detectArtifacts unreachable half (runAll_lock uploaded_offline)))
     = notifications (runAll_lock uploaded_offline)"
  by (simp add: example_defs eval_defs)

subsection \<open>Frames of the stages\<close>

lemma runOfflineSegmentation_frame:
  "requests (runOfflineSegmentation rnd s) = requests s \<and>
   isOnline (runOfflineSegmentation rnd s) = isOnline s \<and>
   segmentation (runOfflineSegmentation rnd s) = offline_segmentation rnd \<and>
   detection (runOfflineSegmentation rnd s) = detection s \<and>
   currentImage (runOfflineSegmentation rnd s) = currentImage s"
  by (simp add: stage_defs Let_def)

lemma runOfflineDetection_frame:
  "requests (runOfflineDetection rnd s) = requests s \<and>
   isOnline (runOfflineDetection rnd s) = isOnline s \<and>
   detection (runOfflineDetection rnd s) = offline_detection rnd \<and>
   segmentation (runOfflineDetection rnd s) = segmentation s \<and>
   currentImage (runOfflineDetection rnd s) = currentImage s"
  by (simp add: stage_defs Let_def)

lemma segmentation_stage_offline:
  "\<not> isOnline s \<Longrightarrow> currentImage s \<noteq> None \<Longrightarrow>
   segmentation_stage r rnd s = (Normal, runOfflineSegmentation rnd s)"
  by (auto simp add: segmentation_stage_def)

lemma detection_stage_offline:
  "\<not> isOnline s \<Longrightarrow> currentImage s \<noteq> None \<Longrightarrow>
   detection_stage r rnd s = (Normal, runOfflineDetection rnd s)"
  by (auto simp add: detection_stage_def)

lemma uploadImage_offline_requests:
  "\<not> isOnline s \<Longrightarrow> requests (snd (uploadImage r now s)) = requests s"
  by (simp add: uploadImage_def uploadOffline_def stage_defs Let_def split: option.splits)

lemma runSegmentation_offline_requests:
  "\<not> isOnline s \<Longrightarrow> requests (snd (runSegmentation r rnd s)) = requests s"
  by (simp add: runSegmentation_def segmentation_stage_offline runOfflineSegmentation_frame
        showNotification_def Let_def)

lemma detectArtifacts_offline_requests:
  "\<not> isOnline s \<Longrightarrow> requests (snd (detectArtifacts r rnd s)) = requests s"
  by (simp add: detectArtifacts_def detection_stage_offline runOfflineDetection_frame
        showNotification_def Let_def)

lemma runBackendSegmentation_mode:
  "isOnline (snd (runBackendSegmentation r s)) = isOnline s \<and>
   currentImage (snd (runBackendSegmentation r s)) = currentImage s"
  by (simp add: runBackendSegmentation_def stage_defs Let_def
        split: option.splits fetched.splits sum.splits)

lemma runBackendDetection_mode:
  "isOnline (snd (runBackendDetection r s)) = isOnline s \<and>
   currentImage (snd (runBackendDetection r s)) = currentImage s"
  by (simp add: runBackendDetection_def stage_defs Let_def
        split: option.splits fetched.splits sum.splits)

lemma segmentation_stage_mode:
  "isOnline (snd (segmentation_stage r rnd s)) = isOnline s \<and>
   currentImage (snd (segmentation_stage r rnd s)) = currentImage s"
  by (simp add: segmentation_stage_def runBackendSegmentation_mode runOfflineSegmentation_frame
        split: option.splits)

lemma detection_stage_mode:
  "isOnline (snd (detection_stage r rnd s)) = isOnline s \<and>
   currentImage (snd (detection_stage r rnd s)) = currentImage s"
  by (simp add: detection_stage_def runBackendDetection_mode runOfflineDetection_frame
        split: option.splits)

lemma uploadImage_mode: "isOnline (snd (uploadImage r now s)) \<Longrightarrow> isOnline s"
proof -
  assume a: "isOnline (snd (uploadImage r now s))"
  show ?thesis
  proof (rule ccontr)
    assume "\<not> isOnline s"
    then have "\<not> isOnline (snd (uploadImage r now s))"
      by (simp add: uploadImage_def uploadOffline_def stage_defs Let_def split: option.splits)
    then show False using a by simp
  qed
qed

lemma runSegmentation_mode: "isOnline (snd (runSegmentation r rnd s)) \<Longrightarrow> isOnline s"
proof -
  let ?s1 = "if \<not> runningAllProcess s then s\<lparr>isProcessing := True\<rparr> else s"
  assume a: "isOnline (snd (runSegmentation r rnd s))"
  obtain c s2 where st: "segmentation_stage r rnd ?s1 = (c, s2)"
    by (cases "segmentation_stage r rnd ?s1")
  have "isOnline s2 = isOnline s" using segmentation_stage_mode [of r rnd ?s1] st by simp
  then show ?thesis
    using a st
    by (cases c)
       (auto simp add: runSegmentation_def runOfflineSegmentation_frame showNotification_def
          Let_def split: if_splits)
qed

lemma detectArtifacts_mode: "isOnline (snd (detectArtifacts r rnd s)) \<Longrightarrow> isOnline s"
proof -
  let ?s1 = "if \<not> runningAllProcess s then s\<lparr>isProcessing := True\<rparr> else s"
  assume a: "isOnline (snd (detectArtifacts r rnd s))"
  obtain c s2 where st: "detection_stage r rnd ?s1 = (c, s2)"
    by (cases "detection_stage r rnd ?s1")
  have "isOnline s2 = isOnline s" using detection_stage_mode [of r rnd ?s1] st by simp
  then show ?thesis
    using a st
    by (cases c)
       (auto simp add: detectArtifacts_def runOfflineDetection_frame showNotification_def
          Let_def split: if_splits)
qed

lemma runAll_try_mode:
  "isOnline (snd (runAll_try r_seg r_det rnd_seg rnd_det now s)) = isOnline s"
proof -
  obtain c1 s1 where a: "segmentation_stage r_seg rnd_seg s = (c1, s1)"
    by (cases "segmentation_stage r_seg rnd_seg s")
  obtain c2 s2 where b: "detection_stage r_det rnd_det s1 = (c2, s2)"
    by (cases "detection_stage r_det rnd_det s1")
  have "isOnline s1 = isOnline s" using segmentation_stage_mode [of r_seg rnd_seg s] a by simp
  moreover have "isOnline s2 = isOnline s1" using detection_stage_mode [of r_det rnd_det s1] b by simp
  ultimately show ?thesis
    using a b
    by (cases c1; cases c2)
       (simp_all add: runAll_try_def generateCombinedStatistics_def showNotification_def Let_def)
qed

lemma runAllProcessing_mode:
  "isOnline (snd (runAllProcessing r_seg r_det rnd_seg rnd_det now s)) = isOnline s"
proof -
  obtain c s1 where a: "runAll_try r_seg r_det rnd_seg rnd_det now (runAll_lock s) = (c, s1)"
    by (cases "runAll_try r_seg r_det rnd_seg rnd_det now (runAll_lock s)")
  have "isOnline s1 = isOnline s"
    using runAll_try_mode [of r_seg r_det rnd_seg rnd_det now "runAll_lock s"] a
    by (simp add: runAll_lock_def)
  then show ?thesis
    using a by (cases c) (simp_all add: runAllProcessing_def runAll_body_def showNotification_def)
qed

lemma exec_mode: "\<not> is_probe e \<Longrightarrow> isOnline (exec e s) \<Longrightarrow> isOnline s"
proof (cases e)
  case (UploadImage r now)
  assume "isOnline (exec e s)"
  then show ?thesis using UploadImage uploadImage_mode by simp
next
  case (RunSegmentation r rnd)
  assume "isOnline (exec e s)"
  then show ?thesis using RunSegmentation runSegmentation_mode by simp
next
  case (DetectArtifacts r rnd)
  assume "isOnline (exec e s)"
  then show ?thesis using DetectArtifacts detectArtifacts_mode by simp
next
  case (RunAll r_seg r_det rnd_seg rnd_det now)
  assume "isOnline (exec e s)"
  then show ?thesis using RunAll runAllProcessing_mode by simp
qed (simp_all add: selectFile_def uploadImage_timeout_def stage_timeout_def runAll_timeout_def
       generateCombinedStatistics_def clearResults_def showNotification_def Let_def
       split: if_splits)

lemma run_mode: "\<forall>e \<in> set es. \<not> is_probe e \<Longrightarrow> isOnline (run es s) \<Longrightarrow> isOnline s"
proof (induction es arbitrary: s)
  case Nil
  then show ?case by simp
next
  case (Cons e es)
  then have "isOnline (exec e s)" by simp
  moreover have "\<not> is_probe e" using Cons.prems by simp
  ultimately show ?case by (rule exec_mode [rotated])
qed

subsection \<open>Offline mode\<close>

text \<open>
  C4. Started while \<^verbatim>\<open>isOnline\<close> is false, an upload, a segmentation and a
  detection call \<^verbatim>\<open>fetch\<close> not once, whether the stage is started by its own
  method or by the choice that \<^verbatim>\<open>runAllProcessing\<close> makes before each step: the
  list of requests is what it was, whatever the server would have answered.
\<close>

theorem offline_never_fetches:
  assumes "\<not> isOnline s"
  shows "requests (snd (uploadImage r_up now_up s)) = requests s \<and>
         requests (snd (runSegmentation r1 rnd1 s)) = requests s \<and>
         requests (snd (detectArtifacts r2 rnd2 s)) = requests s \<and>
         requests (snd (segmentation_stage r3 rnd3 s)) = requests s \<and>
         requests (snd (detection_stage r4 rnd4 s)) = requests s"
  using assms
  by (simp add: uploadImage_offline_requests runSegmentation_offline_requests
        detectArtifacts_offline_requests
        segmentation_stage_def detection_stage_def runOfflineSegmentation_frame
        runOfflineDetection_frame split: option.splits)

text \<open>C4, witness: the three stages after the offline upload.\<close>

theorem offline_never_fetches_witness:
  "\<not> isOnline uploaded_offline \<and>
   requests (snd (uploadImage (Responds 200 (Inr upload_reply)) 3000 uploaded_offline))
     = requests uploaded_offline \<and>
   requests (snd (runSegmentation unreachable half uploaded_offline))
     = requests uploaded_offline \<and>
   requests (snd (detectArtifacts unreachable half uploaded_offline))
     = requests uploaded_offline \<and>
   requests (snd (segmentation_stage unreachable half uploaded_offline))
     = requests uploaded_offline \<and>
   requests (snd (detection_stage unreachable half uploaded_offline))
     = requests uploaded_offline"
proof -
  have h: "\<not> isOnline uploaded_offline"
    by (simp add: example_defs eval_defs)
  show ?thesis
    using offline_never_fetches
            [OF h, of "Responds 200 (Inr upload_reply)" 3000 unreachable half unreachable half
               unreachable half unreachable half] h
    by simp
qed

text \<open>
  C8. From a state in which \<^verbatim>\<open>isOnline\<close> is false, an upload, a segmentation, a
  detection, a complete run and the combination step each end with \<^verbatim>\<open>isOnline\<close>
  false, and so does every sequence of events without a probe: only
  \<^verbatim>\<open>checkBackendStatus\<close> sets the flag, and a failure in offline mode leaves it
  false.
\<close>

theorem mode_never_upgraded_without_probe:
  assumes "\<not> isOnline s" and "\<forall>e \<in> set es. \<not> is_probe e"
  shows "\<not> isOnline (snd (uploadImage r now s)) \<and>
         \<not> isOnline (snd (runSegmentation r rnd s)) \<and>
         \<not> isOnline (snd (detectArtifacts r rnd s)) \<and>
         \<not> isOnline (snd (runAllProcessing r_seg r_det rnd_seg rnd_det now s)) \<and>
         \<not> isOnline (generateCombinedStatistics now s) \<and>
         \<not> isOnline (run es s)"
proof -
  have "\<not> isOnline (snd (uploadImage r now s))"
    using assms(1) uploadImage_mode by blast
  moreover have "\<not> isOnline (snd (runSegmentation r rnd s))"
    using assms(1) runSegmentation_mode by blast
  moreover have "\<not> isOnline (snd (detectArtifacts r rnd s))"
    using assms(1) detectArtifacts_mode by blast
  moreover have "\<not> isOnline (snd (runAllProcessing r_seg r_det rnd_seg rnd_det now s))"
    using assms(1) by (simp add: runAllProcessing_mode)
  moreover have "\<not> isOnline (generateCombinedStatistics now s)"
    using assms(1) by (simp add: generateCombinedStatistics_def Let_def)
  moreover have "\<not> isOnline (run es s)"
    using assms run_mode by blast
  ultimately show ?thesis by simp
qed

text \<open>C8, witness: the offline session from the constructor.\<close>

theorem mode_never_upgraded_without_probe_witness:
  "\<not> isOnline constructor \<and>
   list_all (\<lambda>e. \<not> is_probe e)
     [SelectFile site1, UploadImage unreachable 1000, UploadTimeout,
      RunAll unreachable unreachable half half 2000, RunAllTimeout] \<and>
   \<not> isOnline (snd (uploadImage unreachable 1000 constructor)) \<and>
   \<not> isOnline (run [SelectFile site1, UploadImage unreachable 1000, UploadTimeout,
                     RunAll unreachable unreachable half half 2000, RunAllTimeout] constructor)"
proof -
  have h1: "\<not> isOnline constructor" by (simp add: constructor_def)
  have h2: "\<forall>e \<in> set [SelectFile site1, UploadImage unreachable 1000, UploadTimeout,
                RunAll unreachable unreachable half half 2000, RunAllTimeout]. \<not> is_probe e"
    by simp
  show ?thesis
    using mode_never_upgraded_without_probe [OF h1 h2, of unreachable 1000] h1 h2 by simp
qed

subsection \<open>The probe\<close>

text \<open>
  C6, as the code has it. \<^verbatim>\<open>checkBackendStatus\<close> never throws: its promise is
  fulfilled whatever the request delivers. A rejected request (network error, timeout)
  and a response whose body \<^verbatim>\<open>response.json()\<close> cannot parse leave
  \<^verbatim>\<open>isOnline\<close> false, whatever the status; a response with a JSON body leaves it
  true exactly when the status is a success (\<^verbatim>\<open>response.ok\<close>).
\<close>

theorem checkBackendStatus_never_throws:
  "fst (checkBackendStatus r s) = Normal \<and>
   isOnline (snd (checkBackendStatus (Rejects m) s)) = False \<and>
   isOnline (snd (checkBackendStatus (Responds st (Inl m)) s)) = False \<and>
   isOnline (snd (checkBackendStatus (Responds st (Inr d)) s)) = ok st"
  by (simp add: checkBackendStatus_def checkBackendStatus_try_def showNotification_def fetch_def
        Let_def split: fetched.splits sum.splits)

text \<open>
  C6 as stated fails in its last part: a response with the success status 200 whose
  body is not JSON does not set online mode. \<^verbatim>\<open>response.json()\<close> throws inside the
  \<^verbatim>\<open>try\<close> block, and the \<^verbatim>\<open>catch\<close> block sets \<^verbatim>\<open>isOnline\<close> to false.
\<close>

theorem probe_success_status_counterexample:
  "ok 200 \<and>
   fst (checkBackendStatus (Responds 200 (Inl ''Unexpected token < in JSON'')) constructor)
     = Normal \<and>
   \<not> isOnline
     (snd (checkBackendStatus (Responds 200 (Inl ''Unexpected token < in JSON'')) constructor))"
  by (simp add: checkBackendStatus_def checkBackendStatus_try_def showNotification_def fetch_def
        ok_def Let_def)

subsection \<open>Remote failures\<close>

text \<open>
  What \<^verbatim>\<open>runSegmentation\<close> and \<^verbatim>\<open>detectArtifacts\<close> do when the server fails: the
  warning, the downgrade and the local result.
\<close>

lemma opt_get_get: "v \<noteq> Null \<Longrightarrow> v \<noteq> Undefined \<Longrightarrow> opt_get v k = get v k"
  by (cases v) simp_all

lemma runBackendSegmentation_failure:
  "remote_failure r \<Longrightarrow> currentImage s = Some img \<Longrightarrow>
   \<exists>e. runBackendSegmentation r s = (Throw e, fetch Segment s)"
  by (cases r)
     (auto simp add: runBackendSegmentation_def remote_failure_def opt_get_get Let_def
        split: sum.splits)

lemma runBackendDetection_failure:
  "remote_failure r \<Longrightarrow> currentImage s = Some img \<Longrightarrow>
   \<exists>e. runBackendDetection r s = (Throw e, fetch Detect s)"
  by (cases r)
     (auto simp add: runBackendDetection_def remote_failure_def opt_get_get Let_def
        split: sum.splits)

lemma runSegmentation_falls_back:
  assumes "isOnline s" and "currentImage s = Some img" and "truthy (filename img)"
    and "\<not> (isProcessing s \<and> \<not> runningAllProcess s)" and "remote_failure r"
  shows "fst (runSegmentation r rnd s) = Normal \<and>
         \<not> isOnline (snd (runSegmentation r rnd s)) \<and>
         segmentation (snd (runSegmentation r rnd s)) = offline_segmentation rnd \<and>
         requests (snd (runSegmentation r rnd s)) = requests s @ [Segment]"
proof -
  let ?s1 = "if \<not> runningAllProcess s then s\<lparr>isProcessing := True\<rparr> else s"
  have img: "currentImage ?s1 = Some img" and on: "isOnline ?s1" using assms by simp_all
  obtain e where "runBackendSegmentation r ?s1 = (Throw e, fetch Segment ?s1)"
    using runBackendSegmentation_failure [OF assms(5) img] by blast
  then have "segmentation_stage r rnd ?s1 = (Throw e, fetch Segment ?s1)"
    using img on assms(3) by (simp add: segmentation_stage_def)
  then show ?thesis
    using assms
    by (simp add: runSegmentation_def runOfflineSegmentation_frame showNotification_def
          fetch_def Let_def)
qed

lemma detectArtifacts_falls_back:
  assumes "isOnline s" and "currentImage s = Some img" and "truthy (filename img)"
    and "\<not> (isProcessing s \<and> \<not> runningAllProcess s)" and "remote_failure r"
  shows "fst (detectArtifacts r rnd s) = Normal \<and>
         \<not> isOnline (snd (detectArtifacts r rnd s)) \<and>
         detection (snd (detectArtifacts r rnd s)) = offline_detection rnd \<and>
         requests (snd (detectArtifacts r rnd s)) = requests s @ [Detect]"
proof -
  let ?s1 = "if \<not> runningAllProcess s then s\<lparr>isProcessing := True\<rparr> else s"
  have img: "currentImage ?s1 = Some img" and on: "isOnline ?s1" using assms by simp_all
  obtain e where "runBackendDetection r ?s1 = (Throw e, fetch Detect ?s1)"
    using runBackendDetection_failure [OF assms(5) img] by blast
  then have "detection_stage r rnd ?s1 = (Throw e, fetch Detect ?s1)"
    using img on assms(3) by (simp add: detection_stage_def)
  then show ?thesis
    using assms
    by (simp add: detectArtifacts_def runOfflineDetection_frame showNotification_def
          fetch_def Let_def)
qed

text \<open>
  C5 fails on the code. \<^verbatim>\<open>runAllProcessing\<close> calls \<^verbatim>\<open>runBackendSegmentation\<close>
  itself, without the fallback of \<^verbatim>\<open>runSegmentation\<close>. In online mode with an
  uploaded image, when the server answers the segmentation request with status 500,
  the complete run shows the error \<^verbatim>\<open>Processing failed: Segmentation failed: 500\<close>,
  stays online, stores no segmentation and does not start the detection; the same
  answer to \<^verbatim>\<open>runSegmentation\<close> in the same state gives the downgrade and the
  local result.
\<close>

theorem runAll_remote_failure_not_recovered:
  "isOnline uploaded_online \<and>
   fst (runAllProcessing (Responds 500 (Inr Null)) unreachable half half 2000 uploaded_online)
     = Normal \<and>
   isOnline
     (snd (runAllProcessing (Responds 500 (Inr Null)) unreachable half half 2000 uploaded_online)) \<and>
   segmentation
     (snd (runAllProcessing (Responds 500 (Inr Null)) unreachable half half 2000 uploaded_online))
     = Null \<and>
   detection
     (snd (runAllProcessing (Responds 500 (Inr Null)) unreachable half half 2000 uploaded_online))
     = Null \<and>
   requests
     (snd (runAllProcessing (Responds 500 (Inr Null)) unreachable half half 2000 uploaded_online))
     = [Status, Upload, Segment] \<and>
   last (notifications
     (snd (runAllProcessing (Responds 500 (Inr Null)) unreachable half half 2000 uploaded_online)))
     = ([Lit ''Processing failed: '', Lit ''Segmentation failed: '', Val (Num 500)], Error_level) \<and>
   \<not> isOnline (snd (runSegmentation (Responds 500 (Inr Null)) half uploaded_online)) \<and>
   segmentation (snd (runSegmentation (Responds 500 (Inr Null)) half uploaded_online))
     = offline_segmentation half"
  by (simp add: example_defs eval_defs)

subsection \<open>Synthetic results\<close>












subsection \<open>The summary without results\<close>





subsection \<open>Clearing\<close>

text \<open>
  C9. After \<^verbatim>\<open>clearResults\<close> the segmentation, detection and statistics slots are
  absent, whatever the state was, and the mode flag and the uploaded image are what
  they were before.
\<close>

theorem clearResults_resets_results_only:
  "segmentation (clearResults s) = Null \<and>
   detection (clearResults s) = Null \<and>
   statistics (clearResults s) = None \<and>
   isOnline (clearResults s) = isOnline s \<and>
   currentImage (clearResults s) = currentImage s"
  by (simp add: clearResults_def showNotification_def)

end
